theory Spec2Isabelle
  imports Main "HOL-Library.Char_ord" "HOL-Library.List_Lexorder" "HOL-Library.Multiset"
begin

section \<open>Data model (component\_builder, as used by base\_image\_builder.py)\<close>

text \<open>
  Python \<open>str\<close> is \<^typ>\<open>string\<close>; \<open>list.sort()\<close> on a list of \<open>str\<close> is the
  stable sort by the lexicographic order of the characters, which is the order that
  \<open>Char_ord\<close> and \<open>List_Lexorder\<close> give to \<^typ>\<open>string\<close>.

  A \<open>pathlib.Path\<close> is a value of type \<open>path\<close>. What \<open>pathlib\<close> computes on
  paths (\<open>Path(s)\<close>, \<open>p / s\<close>, \<open>expanduser\<close>, \<open>name\<close>, \<open>str\<close>) depends on the
  platform and on the home directory of the user; for the source these operations are
  part of the environment, further down. \<open>path_div\<close>, which appends one component,
  is used by the model of \<open>CreateCacheStage\<close> only.
\<close>

type_synonym path = "string list"

definition path_div :: "path \<Rightarrow> string \<Rightarrow> path" where
  "path_div p c = p @ [c]"

text \<open>
  The module \<open>component_builder\<close> is imported by the source and is not part of it.
  Modelled from the spec: \<open>DistType\<close> is the enumeration {RELEASE, SNAPSHOT};
  \<open>ComponentConfig\<close> is the record {dist\_type, version, image\_name}; \<open>Configuration\<close>
  is {repository, timestamp, components, resource\_path} with \<open>components\<close> a mapping
  from component name to \<open>ComponentConfig\<close>.
\<close>

datatype DistType = RELEASE | SNAPSHOT

record ComponentConfig =
  dist_type :: DistType
  version :: string
  image_name :: string

record Configuration =
  repository :: string
  timestamp :: string
  components :: "string \<rightharpoonup> ComponentConfig"
  resource_path :: path

text \<open>The exceptions the source raises, and those of its collaborators, as values.\<close>

datatype error =
    KeyError string
  | ValueError string
  | RuntimeError string
  | IndexError
  | CollaboratorError string

text \<open>
  \<open>BaseImageBuilder.__init__\<close> stores its arguments. \<open>_url_template\<close> is a string
  that is only ever used as \<open>_url_template.format(version)\<close>, and is kept as that
  function; \<open>str.format\<close> raises on a template that it cannot fill with one
  positional argument. \<open>_version_from_image_name\<close> is a callable given by the
  caller; like any call it may raise. The docker client is part of the environment below.
\<close>

record BaseImageBuilder =
  self_name :: string
  self_dependencies :: "string list"
  self_url_template :: "string \<Rightarrow> error + string"
  self_version_from_image_name :: "string \<Rightarrow> error + string"

definition name :: "BaseImageBuilder \<Rightarrow> string" where
  "name self = self_name self"

definition dependencies :: "BaseImageBuilder \<Rightarrow> string list" where
  "dependencies self = self_dependencies self"

section \<open>Strings: \<open>str.split\<close>, \<open>str.join\<close>, indexing with \<open>-1\<close>\<close>

text \<open>
  \<open>s.split(sep)\<close> for a one-character separator: the pieces between the
  occurrences of \<open>sep\<close>, in order, empty pieces included; \<open>cur\<close> holds the piece
  being read, reversed.
\<close>

fun split_aux :: "char \<Rightarrow> string \<Rightarrow> string \<Rightarrow> string list" where
  "split_aux sep cur [] = [rev cur]"
| "split_aux sep cur (c # cs) =
     (if c = sep then rev cur # split_aux sep [] cs else split_aux sep (c # cur) cs)"

definition split :: "string \<Rightarrow> char \<Rightarrow> string list" where
  "split s sep = split_aux sep [] s"

text \<open>\<open>xs[-1]\<close>: the last element, \<open>IndexError\<close> on the empty list.\<close>

definition index_last :: "'a list \<Rightarrow> error + 'a" where
  "index_last xs = (case xs of [] \<Rightarrow> Inl IndexError | _ # _ \<Rightarrow> Inr (last xs))"

text \<open>\<open>sep.join(xs)\<close>.\<close>

fun join :: "string \<Rightarrow> string list \<Rightarrow> string" where
  "join sep [] = []"
| "join sep [x] = x"
| "join sep (x # y # ys) = x @ sep @ join sep (y # ys)"

section \<open>\<open>BaseImageBuilder._get_image_name\<close>\<close>

text \<open>
  Lines 94 to 102: the component tag. With the two values of \<open>DistType\<close> the final
  \<open>else: raise RuntimeError\<close> of the source cannot be reached.
\<close>

definition component_tag :: "DistType \<Rightarrow> string option \<Rightarrow> Configuration \<Rightarrow> error + string" where
  "component_tag dt ver built_config =
     (case dt of
        RELEASE \<Rightarrow>
          (case ver of
             None \<Rightarrow> Inl (ValueError ''The version is None but release mode is specified.'')
           | Some v \<Rightarrow> Inr v)
      | SNAPSHOT \<Rightarrow> Inr (''snapshot_'' @ timestamp built_config))"

text \<open>
  Line 110: \<open>built_config.components[dependency].image_name.split(":")[-1]\<close>; the
  lookup raises \<open>KeyError\<close> on a name that is not a key.
\<close>

definition dependency_tag :: "Configuration \<Rightarrow> string \<Rightarrow> error + string" where
  "dependency_tag built_config dependency =
     (case components built_config dependency of
        None \<Rightarrow> Inl (KeyError dependency)
      | Some cc \<Rightarrow> index_last (split (image_name cc) CHR '':''))"

text \<open>
  Lines 108 to 111: the loop over the sorted names, appending
  \<open>dependency + dependency_tag\<close>; the first exception ends it.
\<close>

fun deps_join_loop :: "Configuration \<Rightarrow> string list \<Rightarrow> string list \<Rightarrow> error + string list" where
  "deps_join_loop built_config deps_join_list [] = Inr deps_join_list"
| "deps_join_loop built_config deps_join_list (dependency # rest) =
     (case dependency_tag built_config dependency of
        Inl e \<Rightarrow> Inl e
      | Inr t \<Rightarrow> deps_join_loop built_config (deps_join_list @ [dependency @ t]) rest)"

text \<open>
  Line 92 and lines 115 to 118: the template
  \<open>{repository}/{component}:{component_tag}_{dependencies_tag}\<close>.
\<close>

definition template_format :: "string \<Rightarrow> string \<Rightarrow> string \<Rightarrow> string \<Rightarrow> string" where
  "template_format repo component ctag dtag = repo @ ''/'' @ component @ '':'' @ ctag @ ''_'' @ dtag"

text \<open>
  The whole method. \<open>self.dependencies()\<close> returns the list object held by the
  builder, and \<open>dependencies.sort()\<close> sorts that object in place: the builder is
  returned with its dependency list replaced by the sorted one. The exceptions of
  lines 97 and 102 are raised before the sort, those of the loop after it.
\<close>

definition get_image_name ::
  "BaseImageBuilder \<Rightarrow> DistType \<Rightarrow> string option \<Rightarrow> Configuration \<Rightarrow> BaseImageBuilder \<times> (error + string)" where
  "get_image_name self dt ver built_config =
     (case component_tag dt ver built_config of
        Inl e \<Rightarrow> (self, Inl e)
      | Inr ctag \<Rightarrow>
          (let self' = self\<lparr>self_dependencies := sort (dependencies self)\<rparr>
           in case deps_join_loop built_config [] (dependencies self') of
                Inl e \<Rightarrow> (self', Inl e)
              | Inr deps_join_list \<Rightarrow>
                  (self', Inr (template_format (repository built_config) (name self') ctag
                                 (join ''_'' deps_join_list)))))"

section \<open>The collaborators of \<open>BaseImageBuilder.build\<close>\<close>

text \<open>
  \<open>build\<close> calls into \<open>utils\<close>, \<open>pathlib\<close>, \<open>wget\<close>, \<open>tarfile\<close> and the
  docker client, none of which is part of the source; they are parameters of the model.
  \<open>dist_type_and_arg\<close> resolves a component configuration (a \<open>Dict[str, str]\<close>) or
  raises; \<open>image_exists_locally\<close> is the existence check on the docker client;
  \<open>tmp_dir_of\<close> is the directory that \<open>TmpDirHandler\<close> hands to the
  \<open>with\<close> block. \<open>Path\<close>, \<open>path_truediv\<close> (the operator \<open>/\<close>),
  \<open>path_expanduser\<close> (which raises when no home directory can be found),
  \<open>path_name\<close> and \<open>path_str\<close> are the operations of \<open>pathlib\<close>. The others
  perform an effect and may raise: \<open>wget.download(url, out=...)\<close>;
  \<open>tarfile.open(path, "w:gz")\<close>, \<open>tar.add(name, arcname=...)\<close> and leaving the
  \<open>with\<close> block of the archive, which closes it; \<open>images.build(path=..., tag=...)\<close>.
\<close>

record environment =
  dist_type_and_arg :: "(string \<rightharpoonup> string) \<Rightarrow> error + DistType \<times> string"
  image_exists_locally :: "string \<Rightarrow> bool"
  tmp_dir_of :: "path \<Rightarrow> path"
  Path :: "string \<Rightarrow> path"
  path_truediv :: "path \<Rightarrow> string \<Rightarrow> path"
  path_expanduser :: "path \<Rightarrow> error + path"
  path_name :: "path \<Rightarrow> string"
  path_str :: "path \<Rightarrow> string"
  wget_download :: "string \<Rightarrow> string \<Rightarrow> error option"
  tarfile_open :: "path \<Rightarrow> error option"
  tarfile_add :: "path \<Rightarrow> string \<Rightarrow> string \<Rightarrow> error option"
  tarfile_exit :: "path \<Rightarrow> error option"
  images_build :: "string \<Rightarrow> string \<Rightarrow> error option"

text \<open>
  What a call does to the world, in order: the lines printed and the effects requested,
  each with the arguments it is requested with. A request that raises is an event too.
\<close>

datatype event =
    Print string
  | TmpDirEnter path
  | TmpDirExit path
  | WgetDownload string string
  | TarfileOpen path
  | TarfileAdd path string string
  | TarfileExit path
  | ImagesBuild string string

fun is_print :: "event \<Rightarrow> bool" where
  "is_print (Print _) = True"
| "is_print _ = False"


text \<open>Lines 120 and 121.\<close>

definition get_resource_dir :: "environment \<Rightarrow> BaseImageBuilder \<Rightarrow> path \<Rightarrow> path" where
  "get_resource_dir env self global_resource_path =
     path_truediv env global_resource_path (name self)"

text \<open>
  Modelled from the spec: \<open>utils.TmpDirHandler\<close> is missing from the source. It is
  the scoped scratch directory of the spec, acquired on entry to the \<open>with\<close> block and
  released on every exit path, an exception of the block included; the exception is
  passed on.
\<close>

definition TmpDirHandler ::
  "environment \<Rightarrow> path \<Rightarrow> (path \<Rightarrow> event list \<times> error option) \<Rightarrow> event list \<times> error option" where
  "TmpDirHandler env dir body =
     (let tmp_dir = tmp_dir_of env dir;
          (tr, r) = body tmp_dir
      in (TmpDirEnter tmp_dir # tr @ [TmpDirExit tmp_dir], r))"

text \<open>The messages of the four \<open>print\<close> calls that have one (lines 45, 69, 79, 85).\<close>

definition reusing_message :: "BaseImageBuilder \<Rightarrow> string \<Rightarrow> string" where
  "reusing_message self img = ''Reusing existing '' @ name self @ '' image: '' @ img @ ''.''"

definition downloading_message :: "BaseImageBuilder \<Rightarrow> string \<Rightarrow> string \<Rightarrow> string" where
  "downloading_message self ver url =
     ''Downloading '' @ name self @ '' release version '' @ ver @ '' from '' @ url @ ''.''"

definition preparing_message :: "BaseImageBuilder \<Rightarrow> string \<Rightarrow> string" where
  "preparing_message self shown_path =
     ''Preparing '' @ name self @ '' snapshot version from path '' @ shown_path @ ''.''"

definition building_message :: "string \<Rightarrow> string" where
  "building_message img = ''Building docker image '' @ img @ ''.''"

text \<open>
  Lines 67 to 74: the url is formatted, the message printed, the output path built and
  expanded, the download requested; the final \<open>print()\<close> is reached only when the
  download returns.
\<close>

definition prepare_tarfile_release ::
  "environment \<Rightarrow> BaseImageBuilder \<Rightarrow> string \<Rightarrow> path \<Rightarrow> event list \<times> error option" where
  "prepare_tarfile_release env self ver tmp_dir =
     (case self_url_template self ver of
        Inl e \<Rightarrow> ([], Some e)
      | Inr url \<Rightarrow>
          (let printed = [Print (downloading_message self ver url)];
               out_path = path_truediv env tmp_dir (name self @ ''.tar.gz'')
           in case path_expanduser env out_path of
                Inl e \<Rightarrow> (printed, Some e)
              | Inr p \<Rightarrow>
                  (case wget_download env url (path_str env p) of
                     Some e \<Rightarrow> (printed @ [WgetDownload url (path_str env p)], Some e)
                   | None \<Rightarrow> (printed @ [WgetDownload url (path_str env p), Print []], None))))"

text \<open>
  Lines 76 to 82: the message shows the path as \<open>str\<close> gives it; the archive is opened
  at \<open>tmp_dir / "<name>.tar.gz"\<close>; the expanded path is added under the name of the
  path. Leaving the \<open>with\<close> block closes the archive, also when the block raises, and
  an exception of the block is passed on.
\<close>

definition prepare_tarfile_snapshot ::
  "environment \<Rightarrow> BaseImageBuilder \<Rightarrow> path \<Rightarrow> path \<Rightarrow> event list \<times> error option" where
  "prepare_tarfile_snapshot env self snapshot_path tmp_dir =
     (let printed = [Print (preparing_message self (path_str env snapshot_path))];
          tar_path = path_truediv env tmp_dir (name self @ ''.tar.gz'')
      in case tarfile_open env tar_path of
           Some e \<Rightarrow> (printed @ [TarfileOpen tar_path], Some e)
         | None \<Rightarrow>
             (case path_expanduser env snapshot_path of
                Inl e \<Rightarrow> (printed @ [TarfileOpen tar_path, TarfileExit tar_path], Some e)
              | Inr p \<Rightarrow>
                  (let added = TarfileAdd tar_path (path_str env p) (path_name env snapshot_path)
                   in case tarfile_add env tar_path (path_str env p) (path_name env snapshot_path) of
                        Some e \<Rightarrow>
                          (printed @ [TarfileOpen tar_path, added, TarfileExit tar_path], Some e)
                      | None \<Rightarrow>
                          (printed @ [TarfileOpen tar_path, added, TarfileExit tar_path],
                           tarfile_exit env tar_path))))"

text \<open>Lines 84 to 86.\<close>

definition build_docker_image ::
  "environment \<Rightarrow> string \<Rightarrow> path \<Rightarrow> event list \<times> error option" where
  "build_docker_image env img dockerfile_path =
     ([Print (building_message img), ImagesBuild (path_str env dockerfile_path) img],
      images_build env (path_str env dockerfile_path) img)"

section \<open>\<open>BaseImageBuilder.build\<close>\<close>

text \<open>
  Lines 48 to 55: the step that prepares the archive, by dist type; for SNAPSHOT the
  argument is made a path first (line 52). The last \<open>else: raise ValueError\<close> cannot
  be reached with the two values of \<open>DistType\<close>.
\<close>

definition archive_step ::
  "environment \<Rightarrow> BaseImageBuilder \<Rightarrow> DistType \<Rightarrow> string \<Rightarrow> path \<Rightarrow> event list \<times> error option" where
  "archive_step env self dt argument tmp_dir =
     (case dt of
        RELEASE \<Rightarrow> prepare_tarfile_release env self argument tmp_dir
      | SNAPSHOT \<Rightarrow> prepare_tarfile_snapshot env self (Path env argument) tmp_dir)"

text \<open>
  Lines 48 to 57, the body of the \<open>with\<close> block: the archive is prepared, then the
  image is built; an exception of the first step skips the second.
\<close>

definition rebuild_body ::
  "environment \<Rightarrow> BaseImageBuilder \<Rightarrow> DistType \<Rightarrow> string \<Rightarrow> string \<Rightarrow> Configuration \<Rightarrow> path
     \<Rightarrow> event list \<times> error option" where
  "rebuild_body env self dt argument img built_config tmp_dir =
     (let (tr1, r1) = archive_step env self dt argument tmp_dir
      in case r1 of
           Some e \<Rightarrow> (tr1, Some e)
         | None \<Rightarrow>
             (let (tr2, r2) = build_docker_image env img
                                (get_resource_dir env self (resource_path built_config))
              in (tr1 @ tr2, r2)))"

text \<open>Line 37: the version that \<open>build\<close> passes to \<open>_get_image_name\<close>.\<close>

definition version_argument :: "DistType \<Rightarrow> string \<Rightarrow> string option" where
  "version_argument dt argument = (if dt = RELEASE then Some argument else None)"

text \<open>Lines 40 to 42.\<close>

definition reuse_existing_image :: "environment \<Rightarrow> bool \<Rightarrow> DistType \<Rightarrow> string \<Rightarrow> bool" where
  "reuse_existing_image env force_rebuild dt img =
     (\<not> force_rebuild \<and> dt = RELEASE \<and> image_exists_locally env img)"

text \<open>Lines 44 to 57: one of the two paths.\<close>

definition reuse_or_rebuild ::
  "environment \<Rightarrow> BaseImageBuilder \<Rightarrow> DistType \<Rightarrow> string \<Rightarrow> string \<Rightarrow> Configuration \<Rightarrow> bool
     \<Rightarrow> event list \<times> error option" where
  "reuse_or_rebuild env self dt argument img built_config force_rebuild =
     (if reuse_existing_image env force_rebuild dt img
      then ([Print (reusing_message self img)], None)
      else TmpDirHandler env (get_resource_dir env self (resource_path built_config))
             (rebuild_body env self dt argument img built_config))"

text \<open>Lines 59 to 65.\<close>

definition resolve_version ::
  "BaseImageBuilder \<Rightarrow> DistType \<Rightarrow> string \<Rightarrow> string \<Rightarrow> error + string" where
  "resolve_version self dt argument img =
     (if dt = RELEASE then Inr argument else self_version_from_image_name self img)"

text \<open>
  The whole method: the builder after the call (its dependency list may have been
  sorted), the events, and the returned \<open>ComponentConfig\<close> or the exception.
\<close>

definition build ::
  "environment \<Rightarrow> BaseImageBuilder \<Rightarrow> (string \<rightharpoonup> string) \<Rightarrow> Configuration \<Rightarrow> bool
     \<Rightarrow> BaseImageBuilder \<times> event list \<times> (error + ComponentConfig)" where
  "build env self component_config built_config force_rebuild =
     (case dist_type_and_arg env component_config of
        Inl e \<Rightarrow> (self, [], Inl e)
      | Inr (dt, argument) \<Rightarrow>
          (case get_image_name self dt (version_argument dt argument) built_config of
             (self', Inl e) \<Rightarrow> (self', [], Inl e)
           | (self', Inr img) \<Rightarrow>
               (case reuse_or_rebuild env self' dt argument img built_config force_rebuild of
                  (tr, Some e) \<Rightarrow> (self', tr, Inl e)
                | (tr, None) \<Rightarrow>
                    (case resolve_version self' dt argument img of
                       Inl e \<Rightarrow> (self', tr, Inl e)
                     | Inr v \<Rightarrow>
                         (self', tr,
                          Inr \<lparr>dist_type = dt, version = v, image_name = img\<rparr>)))))"

section \<open>Stages\<close>

text \<open>
  Modelled from the spec: the modules \<open>stage\<close> and \<open>default_component_image_builder\<close>
  (\<open>Stage\<close>, \<open>CreateCacheStage\<close>) are imported by the tests of the source and are
  not part of it. What follows is the spec's description of a Stage and of
  \<open>CreateCacheStage\<close>; \<open>BaseImageBuilder.build\<close> uses neither.

  A Stage has a read-only precondition check and an effectful execution step. The
  effects are on the file system, a map from paths to what is there.
\<close>

datatype node = File | Directory

type_synonym filesystem = "path \<rightharpoonup> node"

datatype stage_error = PreconditionError string | ExecutionError string

record Stage =
  stage_name :: string
  check_precondition :: "filesystem \<Rightarrow> bool"
  execute :: "filesystem \<Rightarrow> filesystem \<times> stage_error option"

definition cache_dir :: "path \<Rightarrow> path" where
  "cache_dir parent_dir = path_div parent_dir ''cache''"

text \<open>
  Modelled from the spec: \<open>CreateCacheStage(parent_dir)\<close>. Precondition:
  \<open>parent_dir\<close> exists and is a directory. Execute: ensure that a \<open>cache\<close>
  subdirectory exists under \<open>parent_dir\<close>; a cache directory that is already there is
  left untouched. The spec does not say what happens when something that is not a
  directory has that name; no directory can be ensured then without clearing it, and
  the model fails there and changes nothing.
\<close>

definition CreateCacheStage :: "path \<Rightarrow> Stage" where
  "CreateCacheStage parent_dir =
     \<lparr>stage_name = ''CreateCacheStage'',
      check_precondition = (\<lambda>fs. fs parent_dir = Some Directory),
      execute = (\<lambda>fs. case fs (cache_dir parent_dir) of
                         None \<Rightarrow> (fs(cache_dir parent_dir \<mapsto> Directory), None)
                       | Some Directory \<Rightarrow> (fs, None)
                       | Some File \<Rightarrow> (fs, Some (ExecutionError ''cache is not a directory'')))\<rparr>"

section \<open>Notions used to state the properties\<close>

text \<open>
  The text of \<open>s\<close> after its last occurrence of \<open>sep\<close>, and all of \<open>s\<close>
  when \<open>sep\<close> does not occur: the tag suffix of an image name, as the spec words it.
\<close>

definition suffix_after_last :: "char \<Rightarrow> string \<Rightarrow> string" where
  "suffix_after_last sep s = rev (takeWhile (\<lambda>c. c \<noteq> sep) (rev s))"

text \<open>The three components of what \<open>build\<close> returns.\<close>

definition builder_after :: "BaseImageBuilder \<times> event list \<times> (error + ComponentConfig) \<Rightarrow> BaseImageBuilder" where
  "builder_after r = fst r"

definition events :: "BaseImageBuilder \<times> event list \<times> (error + ComponentConfig) \<Rightarrow> event list" where
  "events r = fst (snd r)"

definition outcome :: "BaseImageBuilder \<times> event list \<times> (error + ComponentConfig) \<Rightarrow> error + ComponentConfig" where
  "outcome r = snd (snd r)"

section \<open>Example inputs\<close>

text \<open>A configuration whose only component has an image name without a colon.\<close>

definition plain_config :: Configuration where
  "plain_config =
     \<lparr>repository = ''acme'', timestamp = ''t'',
      components = [''db'' \<mapsto> \<lparr>dist_type = RELEASE, version = ''1.0'', image_name = ''db-1.0''\<rparr>],
      resource_path = []\<rparr>"

text \<open>
  A version extraction that a caller may pass to the constructor:
  \<open>"_".join(image_name.split(":")[-1].split("_")[:2])\<close>, the first two pieces of
  the tag.
\<close>

definition version_from_tag_prefix :: "string \<Rightarrow> error + string" where
  "version_from_tag_prefix img =
     (case index_last (split img CHR '':'') of
        Inl e \<Rightarrow> Inl e
      | Inr tag \<Rightarrow> Inr (join ''_'' (take 2 (split tag CHR ''_''))))"

text \<open>The scenario of the spec: component web, declared dependencies db and cache.\<close>

definition web_builder :: BaseImageBuilder where
  "web_builder =
     \<lparr>self_name = ''web'', self_dependencies = [''db'', ''cache''],
      self_url_template = (\<lambda>v. Inr (''https://example.org/web-'' @ v @ ''.tar.gz'')),
      self_version_from_image_name = version_from_tag_prefix\<rparr>"

definition scenario_config :: Configuration where
  "scenario_config =
     \<lparr>repository = ''acme'', timestamp = ''20190101_1200'',
      components =
        [''db'' \<mapsto> \<lparr>dist_type = RELEASE, version = ''1.0'', image_name = ''.../db:1.0_''\<rparr>,
         ''cache'' \<mapsto> \<lparr>dist_type = RELEASE, version = ''2.0'', image_name = ''.../cache:2.0_''\<rparr>],
      resource_path = [''resources'']\<rparr>"


text \<open>
  An environment in which every collaborator succeeds and the image is already there.
  Its resolution of a component configuration reads the key \<open>release\<close>, then the key
  \<open>snapshot\<close>. Its paths are lists of components: a string is one component,
  \<open>/\<close> appends one, nothing is expanded.
\<close>

definition example_env :: environment where
  "example_env =
     \<lparr>dist_type_and_arg =
        (\<lambda>cc. case cc ''release'' of
                 Some v \<Rightarrow> Inr (RELEASE, v)
               | None \<Rightarrow> (case cc ''snapshot'' of
                             Some p \<Rightarrow> Inr (SNAPSHOT, p)
                           | None \<Rightarrow> Inl (ValueError ''no dist type''))),
      image_exists_locally = (\<lambda>_. True),
      tmp_dir_of = (\<lambda>p. p @ [''tmp'']),
      Path = (\<lambda>s. [s]),
      path_truediv = (\<lambda>p s. p @ [s]),
      path_expanduser = Inr,
      path_name = (\<lambda>p. case p of [] \<Rightarrow> [] | _ # _ \<Rightarrow> last p),
      path_str = join ''/'',
      wget_download = (\<lambda>_ _. None),
      tarfile_open = (\<lambda>_. None),
      tarfile_add = (\<lambda>_ _ _. None),
      tarfile_exit = (\<lambda>_. None),
      images_build = (\<lambda>_ _. None)\<rparr>"


definition release_request :: "string \<rightharpoonup> string" where
  "release_request = [''release'' \<mapsto> ''3.0'']"

definition snapshot_request :: "string \<rightharpoonup> string" where
  "snapshot_request = [''snapshot'' \<mapsto> ''/home/dev/web'']"


text \<open>A file system with a parent directory whose cache directory holds a file.\<close>

definition example_fs :: filesystem where
  "example_fs =
     [[''work''] \<mapsto> Directory,
      [''work'', ''cache''] \<mapsto> Directory,
      [''work'', ''cache'', ''file''] \<mapsto> File]"

section \<open>Properties of \<open>split\<close> and of the tag suffix\<close>

lemma takeWhile_no_sep: "sep \<notin> set xs \<Longrightarrow> takeWhile (\<lambda>c. c \<noteq> sep) xs = xs"
  by auto

lemma split_aux_not_Nil: "split_aux sep cur s \<noteq> []"
  by (induction s arbitrary: cur) auto

lemma last_split_aux:
  "sep \<notin> set cur \<Longrightarrow> last (split_aux sep cur s) = rev (takeWhile (\<lambda>c. c \<noteq> sep) (rev s @ cur))"
proof (induction s arbitrary: cur)
  case Nil
  then show ?case by (simp add: takeWhile_no_sep)
next
  case (Cons c cs)
  show ?case
  proof (cases "c = sep")
    case True
    have "last (split_aux sep cur (c # cs)) = last (split_aux sep [] cs)"
      using True by (simp add: split_aux_not_Nil)
    also have "\<dots> = rev (takeWhile (\<lambda>c. c \<noteq> sep) (rev cs))"
      using Cons.IH [of "[]"] by simp
    also have "takeWhile (\<lambda>c. c \<noteq> sep) (rev cs) = takeWhile (\<lambda>c. c \<noteq> sep) (rev cs @ sep # cur)"
      by (simp add: takeWhile_tail)
    finally show ?thesis using True by simp
  next
    case False
    then show ?thesis using Cons.IH [of "c # cur"] Cons.prems by simp
  qed
qed

lemma index_last_split: "index_last (split s sep) = Inr (suffix_after_last sep s)"
proof -
  obtain p ps where "split_aux sep [] s = p # ps"
    using split_aux_not_Nil [of sep "[]" s] by (cases "split_aux sep [] s") auto
  then show ?thesis
    using last_split_aux [of sep "[]" s]
    by (simp add: index_last_def split_def suffix_after_last_def)
qed

lemma suffix_after_last_none: "sep \<notin> set s \<Longrightarrow> suffix_after_last sep s = s"
  by (simp add: suffix_after_last_def takeWhile_no_sep)

lemma suffix_after_last_append:
  "sep \<notin> set suf \<Longrightarrow> suffix_after_last sep (pre @ sep # suf) = suf"
proof -
  assume a: "sep \<notin> set suf"
  have "takeWhile (\<lambda>c. c \<noteq> sep) (rev suf @ sep # rev pre) = rev suf"
    using a by (simp add: takeWhile_append)
  then show ?thesis
    by (simp add: suffix_after_last_def)
qed

lemma dependency_tag_Some:
  "components built_config d = Some cc \<Longrightarrow>
   dependency_tag built_config d = Inr (suffix_after_last CHR '':'' (image_name cc))"
  by (simp add: dependency_tag_def index_last_split)


text \<open>
  C9. The tag suffix taken from a dependency that has an entry is the text of its
  image name after the last colon. An image name without any colon does not make the
  lookup fail: the suffix is then the whole image name.
\<close>

theorem dependency_tag_after_last_colon:
  assumes "components built_config dependency = Some cc"
  shows "dependency_tag built_config dependency = Inr (suffix_after_last CHR '':'' (image_name cc))
     \<and> (CHR '':'' \<notin> set (image_name cc) \<longrightarrow>
          dependency_tag built_config dependency = Inr (image_name cc))
     \<and> (\<forall>pre suf. image_name cc = pre @ CHR '':'' # suf \<and> CHR '':'' \<notin> set suf \<longrightarrow>
          dependency_tag built_config dependency = Inr suf)"
  using assms
  by (simp add: dependency_tag_def index_last_split suffix_after_last_none
      suffix_after_last_append)

theorem dependency_tag_after_last_colon_witness:
  "components plain_config ''db''
     = Some \<lparr>dist_type = RELEASE, version = ''1.0'', image_name = ''db-1.0''\<rparr>
   \<and> dependency_tag plain_config ''db'' = Inr ''db-1.0''"
proof -
  have h: "components plain_config ''db''
     = Some \<lparr>dist_type = RELEASE, version = ''1.0'', image_name = ''db-1.0''\<rparr>"
    by (simp add: plain_config_def)
  have "dependency_tag plain_config ''db'' = Inr ''db-1.0''"
    using dependency_tag_after_last_colon [OF h, THEN conjunct2, THEN conjunct1] by simp
  with h show ?thesis by simp
qed

section \<open>Properties of \<open>_get_image_name\<close>\<close>

lemma sort_db_cache: "sort [''db'', ''cache''] = [''cache'', ''db'']"
  by code_simp

lemma get_image_name_tagged:
  "component_tag dt ver built_config = Inr ctag \<Longrightarrow>
   get_image_name self dt ver built_config =
     (self\<lparr>self_dependencies := sort (dependencies self)\<rparr>,
      case deps_join_loop built_config [] (sort (dependencies self)) of
        Inl e \<Rightarrow> Inl e
      | Inr l \<Rightarrow> Inr (template_format (repository built_config) (name self) ctag (join ''_'' l)))"
  by (simp add: get_image_name_def Let_def dependencies_def name_def split: sum.splits)

lemma deps_join_loop_cong:
  "\<forall>d\<in>set ds. dependency_tag bc d = dependency_tag bc' d \<Longrightarrow>
   deps_join_loop bc acc ds = deps_join_loop bc' acc ds"
  by (induction ds arbitrary: acc) (auto split: sum.splits)


lemma deps_join_loop_present:
  "\<forall>d\<in>set ds. components bc d \<noteq> None \<Longrightarrow> \<exists>l. deps_join_loop bc acc ds = Inr l"
proof (induction ds arbitrary: acc)
  case Nil
  then show ?case by simp
next
  case (Cons x xs)
  then obtain cc where "components bc x = Some cc" by auto
  then show ?case using Cons by (simp add: dependency_tag_Some)
qed

lemma sort_mset_eq: "mset xs = mset ys \<Longrightarrow> sort xs = sort (ys :: string list)"
  by (rule properties_for_sort) simp_all

text \<open>
  C4. For a SNAPSHOT request the component tag is \<open>snapshot_\<close> followed by the
  timestamp of the configuration, whatever version argument is passed (\<open>build\<close>
  passes none, so the snapshot path and the directory it names play no part); for a
  RELEASE request it is the requested version string. These are the tags that the
  identifier is composed with.
\<close>

theorem component_tag_by_dist_type:
  "component_tag SNAPSHOT ver built_config = Inr (''snapshot_'' @ timestamp built_config)
   \<and> component_tag RELEASE (Some v) built_config = Inr v
   \<and> snd (get_image_name self SNAPSHOT ver built_config) =
       (case deps_join_loop built_config [] (sort (dependencies self)) of
          Inl e \<Rightarrow> Inl e
        | Inr l \<Rightarrow> Inr (template_format (repository built_config) (name self)
                          (''snapshot_'' @ timestamp built_config) (join ''_'' l)))
   \<and> snd (get_image_name self RELEASE (Some v) built_config) =
       (case deps_join_loop built_config [] (sort (dependencies self)) of
          Inl e \<Rightarrow> Inl e
        | Inr l \<Rightarrow> Inr (template_format (repository built_config) (name self) v (join ''_'' l)))"
proof -
  have s: "component_tag SNAPSHOT ver built_config = Inr (''snapshot_'' @ timestamp built_config)"
    by (simp add: component_tag_def)
  have r: "component_tag RELEASE (Some v) built_config = Inr v"
    by (simp add: component_tag_def)
  show ?thesis
    using s r by (simp add: get_image_name_tagged [OF s] get_image_name_tagged [OF r])
qed

text \<open>
  C1, as amended. In the scenario of the spec (component web, declared dependencies db
  and cache, image names ending in \<open>/db:1.0_\<close> and \<open>/cache:2.0_\<close>, repository
  acme, RELEASE 3.0) the identifier is \<open>acme/web:3.0_cache2.0__db1.0_\<close>: each name
  is followed by the whole tag suffix of its image, final underscore included, and the
  name is not doubled.
\<close>

theorem scenario_identifier:
  "snd (get_image_name
          \<lparr>self_name = ''web'', self_dependencies = [''db'', ''cache''],
           self_url_template = u, self_version_from_image_name = f\<rparr>
          RELEASE (Some ''3.0'')
          \<lparr>repository = ''acme'', timestamp = ts,
           components = m(''db'' \<mapsto> \<lparr>dist_type = dt1, version = v1, image_name = p1 @ ''/db:1.0_''\<rparr>,
                          ''cache'' \<mapsto> \<lparr>dist_type = dt2, version = v2, image_name = p2 @ ''/cache:2.0_''\<rparr>),
           resource_path = rp\<rparr>)
   = Inr ''acme/web:3.0_cache2.0__db1.0_''"
proof -
  have db: "suffix_after_last CHR '':'' (p1 @ ''/db:1.0_'') = ''1.0_''"
    using suffix_after_last_append [of "CHR '':''" "''1.0_''" "p1 @ ''/db''"] by simp
  have cache: "suffix_after_last CHR '':'' (p2 @ ''/cache:2.0_'') = ''2.0_''"
    using suffix_after_last_append [of "CHR '':''" "''2.0_''" "p2 @ ''/cache''"] by simp
  have r: "component_tag RELEASE (Some ''3.0'') bc = Inr ''3.0''" for bc
    by (simp add: component_tag_def)
  show ?thesis
    by (simp add: get_image_name_tagged [OF r] dependencies_def name_def sort_db_cache
        dependency_tag_Some db cache template_format_def)
qed

text \<open>C1, as stated: the identifier of the scenario is not the one the spec expects.\<close>

theorem scenario_identifier_differs:
  "snd (get_image_name web_builder RELEASE (Some ''3.0'') scenario_config)
     \<noteq> Inr ''acme/web:3.0_cachecache2.0_dbdb1.0''"
  by (simp add: get_image_name_def web_builder_def scenario_config_def component_tag_def
      dependencies_def name_def sort_db_cache dependency_tag_def split_def index_last_def
      template_format_def)

text \<open>
  C2. The identifier is determined by the repository, the component name, the
  component tag and the tag suffixes of the declared dependencies, and does not depend
  on the order in which they are declared: two builders whose declared lists are
  permutations of each other get the same identifier, or the same exception.
\<close>

theorem identifier_independent_of_declaration_order:
  assumes "mset deps = mset deps'"
    and "name self = name self'"
    and "repository built_config = repository built_config'"
    and "component_tag dt ver built_config = component_tag dt' ver' built_config'"
    and "\<forall>d\<in>set deps. dependency_tag built_config d = dependency_tag built_config' d"
  shows "snd (get_image_name (self\<lparr>self_dependencies := deps\<rparr>) dt ver built_config)
       = snd (get_image_name (self'\<lparr>self_dependencies := deps'\<rparr>) dt' ver' built_config')"
proof -
  have sorted_eq: "sort deps = sort deps'"
    using assms(1) by (rule sort_mset_eq)
  have "\<forall>d\<in>set (sort deps). dependency_tag built_config d = dependency_tag built_config' d"
    using assms(5) by simp
  then have loop_eq: "deps_join_loop built_config [] (sort deps) = deps_join_loop built_config' [] (sort deps')"
    using sorted_eq deps_join_loop_cong by metis
  show ?thesis
  proof (cases "component_tag dt ver built_config")
    case (Inl e)
    then show ?thesis using assms(4) by (simp add: get_image_name_def)
  next
    case (Inr ctag)
    then have "component_tag dt' ver' built_config' = Inr ctag" using assms(4) by simp
    then show ?thesis
      using Inr loop_eq assms(2,3)
      by (simp add: get_image_name_tagged dependencies_def name_def split: sum.splits)
  qed
qed

theorem identifier_independent_of_declaration_order_witness:
  "mset [''db'', ''cache''] = mset [''cache'', ''db'']
   \<and> snd (get_image_name (web_builder\<lparr>self_dependencies := [''db'', ''cache'']\<rparr>)
            RELEASE (Some ''3.0'') scenario_config)
     = snd (get_image_name (web_builder\<lparr>self_dependencies := [''cache'', ''db'']\<rparr>)
            RELEASE (Some ''3.0'') scenario_config)"
proof -
  have h: "mset [''db'', ''cache''] = mset [''cache'', ''db'']" by simp
  show ?thesis
    using h identifier_independent_of_declaration_order
      [OF h, of web_builder web_builder scenario_config scenario_config
         RELEASE "Some ''3.0''" RELEASE "Some ''3.0''"]
    by simp
qed

section \<open>Properties of \<open>build\<close>\<close>

lemma component_tag_version_argument:
  "component_tag dt (version_argument dt argument) built_config =
     Inr (case dt of RELEASE \<Rightarrow> argument | SNAPSHOT \<Rightarrow> ''snapshot_'' @ timestamp built_config)"
  by (cases dt) (simp_all add: component_tag_def version_argument_def)

lemma fst_get_image_name_in_build:
  "fst (get_image_name self dt (version_argument dt argument) built_config) =
     self\<lparr>self_dependencies := sort (dependencies self)\<rparr>"
  by (simp add: get_image_name_tagged [OF component_tag_version_argument])

lemma build_resolved:
  assumes "dist_type_and_arg env component_config = Inr (dt, argument)"
  shows "build env self component_config built_config force_rebuild =
     (let self' = self\<lparr>self_dependencies := sort (dependencies self)\<rparr>
      in case snd (get_image_name self dt (version_argument dt argument) built_config) of
           Inl e \<Rightarrow> (self', [], Inl e)
         | Inr img \<Rightarrow>
             (case reuse_or_rebuild env self' dt argument img built_config force_rebuild of
                (tr, Some e) \<Rightarrow> (self', tr, Inl e)
              | (tr, None) \<Rightarrow>
                  (case resolve_version self' dt argument img of
                     Inl e \<Rightarrow> (self', tr, Inl e)
                   | Inr v \<Rightarrow> (self', tr, Inr \<lparr>dist_type = dt, version = v, image_name = img\<rparr>))))"
proof -
  obtain s r where g: "get_image_name self dt (version_argument dt argument) built_config = (s, r)"
    by (cases "get_image_name self dt (version_argument dt argument) built_config")
  then have "s = self\<lparr>self_dependencies := sort (dependencies self)\<rparr>"
    using fst_get_image_name_in_build [of self dt argument built_config] by simp
  then show ?thesis
    using assms g by (simp add: build_def Let_def split: sum.splits)
qed

lemma builder_after_build_resolved:
  assumes "dist_type_and_arg env component_config = Inr (dt, argument)"
  shows "builder_after (build env self component_config built_config force_rebuild) =
     self\<lparr>self_dependencies := sort (dependencies self)\<rparr>"
  by (simp add: build_resolved [OF assms] builder_after_def Let_def
      split: sum.splits prod.splits option.splits)

lemma builder_after_build_cases:
  "builder_after (build env self component_config built_config force_rebuild) = self
   \<or> builder_after (build env self component_config built_config force_rebuild) =
       self\<lparr>self_dependencies := sort (dependencies self)\<rparr>"
proof (cases "dist_type_and_arg env component_config")
  case (Inl e)
  then show ?thesis by (simp add: build_def builder_after_def)
next
  case (Inr p)
  then obtain dt argument where "dist_type_and_arg env component_config = Inr (dt, argument)"
    by (cases p) auto
  then show ?thesis by (simp add: builder_after_build_resolved)
qed

text \<open>
  C10. Computing the identifier sorts the builder's own dependency list in place. After
  a call to \<open>build\<close> whose dist type resolves (so that the tag computation is
  reached), \<open>dependencies()\<close> returns the sorted permutation of the declared list,
  and it still does after any further call.
\<close>

theorem build_sorts_dependencies_in_place:
  assumes "dist_type_and_arg env component_config = Inr (dt, argument)"
  shows "dependencies (builder_after (build env self component_config built_config force_rebuild))
           = sort (dependencies self)
     \<and> dependencies (fst (get_image_name self dt (version_argument dt argument) built_config))
           = sort (dependencies self)
     \<and> sorted (dependencies (builder_after (build env self component_config built_config force_rebuild)))
     \<and> mset (dependencies (builder_after (build env self component_config built_config force_rebuild)))
           = mset (dependencies self)
     \<and> dependencies (builder_after
          (build env' (builder_after (build env self component_config built_config force_rebuild))
             component_config' built_config' force_rebuild'))
           = sort (dependencies self)"
proof -
  let ?self' = "self\<lparr>self_dependencies := sort (dependencies self)\<rparr>"
  have first: "builder_after (build env self component_config built_config force_rebuild) = ?self'"
    using assms by (rule builder_after_build_resolved)
  have again: "dependencies (builder_after (build env' ?self' component_config' built_config' force_rebuild'))
      = sort (dependencies self)"
    using builder_after_build_cases [of env' ?self' component_config' built_config' force_rebuild']
    by (auto simp: dependencies_def sort_key_id_if_sorted)
  show ?thesis
    using first again by (simp add: fst_get_image_name_in_build dependencies_def)
qed

theorem build_sorts_dependencies_in_place_witness:
  "dist_type_and_arg example_env release_request = Inr (RELEASE, ''3.0'')
   \<and> dependencies web_builder = [''db'', ''cache'']
   \<and> dependencies (builder_after (build example_env web_builder release_request scenario_config False))
        = [''cache'', ''db'']"
proof -
  have h: "dist_type_and_arg example_env release_request = Inr (RELEASE, ''3.0'')"
    by (simp add: example_env_def release_request_def)
  have d: "dependencies web_builder = [''db'', ''cache'']"
    by (simp add: dependencies_def web_builder_def)
  show ?thesis
    using h d build_sorts_dependencies_in_place [OF h, of web_builder scenario_config False]
    by (simp add: sort_db_cache)
qed





lemma events_build_resolved:
  assumes "dist_type_and_arg env component_config = Inr (dt, argument)"
    and "snd (get_image_name self dt (version_argument dt argument) built_config) = Inr img"
  shows "events (build env self component_config built_config force_rebuild) =
     fst (reuse_or_rebuild env (self\<lparr>self_dependencies := sort (dependencies self)\<rparr>)
            dt argument img built_config force_rebuild)"
  using assms(2)
  by (simp add: build_resolved [OF assms(1)] events_def Let_def
      split: sum.splits prod.splits option.splits)

lemma rebuild_body_events:
  "fst (rebuild_body env self dt argument img built_config tmp_dir) =
     fst (archive_step env self dt argument tmp_dir)
     @ (if snd (archive_step env self dt argument tmp_dir) = None
        then [Print (building_message img),
              ImagesBuild (path_str env (get_resource_dir env self (resource_path built_config))) img]
        else [])"
  by (cases "archive_step env self dt argument tmp_dir")
     (auto simp: rebuild_body_def build_docker_image_def split: option.splits)

lemma rebuild_body_result:
  "snd (rebuild_body env self dt argument img built_config tmp_dir) =
     (case snd (archive_step env self dt argument tmp_dir) of
        Some e \<Rightarrow> Some e
      | None \<Rightarrow> images_build env
                  (path_str env (get_resource_dir env self (resource_path built_config))) img)"
  by (cases "archive_step env self dt argument tmp_dir")
     (auto simp: rebuild_body_def build_docker_image_def split: option.splits)

lemma reuse_or_rebuild_events:
  "fst (reuse_or_rebuild env self dt argument img built_config force_rebuild) =
     (if reuse_existing_image env force_rebuild dt img
      then [Print (reusing_message self img)]
      else TmpDirEnter (tmp_dir_of env (get_resource_dir env self (resource_path built_config)))
           # fst (rebuild_body env self dt argument img built_config
                    (tmp_dir_of env (get_resource_dir env self (resource_path built_config))))
           @ [TmpDirExit (tmp_dir_of env (get_resource_dir env self (resource_path built_config)))])"
  by (simp add: reuse_or_rebuild_def TmpDirHandler_def Let_def split: prod.splits)

lemma reuse_or_rebuild_result:
  "snd (reuse_or_rebuild env self dt argument img built_config force_rebuild) =
     (if reuse_existing_image env force_rebuild dt img
      then None
      else snd (rebuild_body env self dt argument img built_config
                  (tmp_dir_of env (get_resource_dir env self (resource_path built_config)))))"
  by (simp add: reuse_or_rebuild_def TmpDirHandler_def Let_def split: prod.splits)

text \<open>Sorting the dependency list changes nothing that the rebuild reads.\<close>

lemma archive_step_sorted:
  "archive_step env (self\<lparr>self_dependencies := ds\<rparr>) dt argument tmp_dir
     = archive_step env self dt argument tmp_dir"
  by (cases dt)
     (simp_all add: archive_step_def prepare_tarfile_release_def prepare_tarfile_snapshot_def
        downloading_message_def preparing_message_def name_def Let_def
        split: sum.splits option.splits)

lemma get_resource_dir_sorted:
  "get_resource_dir env (self\<lparr>self_dependencies := ds\<rparr>) p = get_resource_dir env self p"
  by (simp add: get_resource_dir_def name_def)

lemma reusing_message_sorted:
  "reusing_message (self\<lparr>self_dependencies := ds\<rparr>) img = reusing_message self img"
  by (simp add: reusing_message_def name_def)



lemma release_step_events:
  "fst (archive_step env self RELEASE argument tmp_dir)
     @ (if snd (archive_step env self RELEASE argument tmp_dir) = None then build_events else [])
   = (case self_url_template self argument of
        Inl e \<Rightarrow> []
      | Inr url \<Rightarrow>
          Print (downloading_message self argument url)
          # (case path_expanduser env (path_truediv env tmp_dir (name self @ ''.tar.gz'')) of
               Inl e \<Rightarrow> []
             | Inr p \<Rightarrow>
                 WgetDownload url (path_str env p)
                 # (case wget_download env url (path_str env p) of
                      Some e \<Rightarrow> []
                    | None \<Rightarrow> Print [] # build_events)))"
  by (simp add: archive_step_def prepare_tarfile_release_def Let_def
      split: sum.splits option.splits)

lemma snapshot_step_events:
  "fst (archive_step env self SNAPSHOT argument tmp_dir)
     @ (if snd (archive_step env self SNAPSHOT argument tmp_dir) = None then build_events else [])
   = Print (preparing_message self (path_str env (Path env argument)))
     # TarfileOpen (path_truediv env tmp_dir (name self @ ''.tar.gz''))
     # (case tarfile_open env (path_truediv env tmp_dir (name self @ ''.tar.gz'')) of
          Some e \<Rightarrow> []
        | None \<Rightarrow>
            (case path_expanduser env (Path env argument) of
               Inl e \<Rightarrow> [TarfileExit (path_truediv env tmp_dir (name self @ ''.tar.gz''))]
             | Inr p \<Rightarrow>
                 TarfileAdd (path_truediv env tmp_dir (name self @ ''.tar.gz''))
                   (path_str env p) (path_name env (Path env argument))
                 # TarfileExit (path_truediv env tmp_dir (name self @ ''.tar.gz''))
                 # (case tarfile_add env (path_truediv env tmp_dir (name self @ ''.tar.gz''))
                           (path_str env p) (path_name env (Path env argument)) of
                      Some e \<Rightarrow> []
                    | None \<Rightarrow>
                        (case tarfile_exit env (path_truediv env tmp_dir (name self @ ''.tar.gz'')) of
                           Some e \<Rightarrow> []
                         | None \<Rightarrow> build_events))))"
  by (auto simp: archive_step_def prepare_tarfile_snapshot_def Let_def
      split: sum.splits option.splits)

lemma events_build_rebuild:
  assumes "dist_type_and_arg env component_config = Inr (dt, argument)"
    and "snd (get_image_name self dt (version_argument dt argument) built_config) = Inr img"
    and "\<not> reuse_existing_image env force_rebuild dt img"
  shows "events (build env self component_config built_config force_rebuild) =
     TmpDirEnter (tmp_dir_of env (get_resource_dir env self (resource_path built_config)))
     # (fst (archive_step env self dt argument
               (tmp_dir_of env (get_resource_dir env self (resource_path built_config))))
        @ (if snd (archive_step env self dt argument
                     (tmp_dir_of env (get_resource_dir env self (resource_path built_config)))) = None
           then [Print (building_message img),
                 ImagesBuild (path_str env (get_resource_dir env self (resource_path built_config))) img]
           else []))
     @ [TmpDirExit (tmp_dir_of env (get_resource_dir env self (resource_path built_config)))]"
  using assms(3)
  by (simp add: events_build_resolved [OF assms(1,2)] reuse_or_rebuild_events
      rebuild_body_events archive_step_sorted get_resource_dir_sorted)

lemma events_build_reuse:
  assumes "dist_type_and_arg env component_config = Inr (dt, argument)"
    and "snd (get_image_name self dt (version_argument dt argument) built_config) = Inr img"
    and "reuse_existing_image env force_rebuild dt img"
  shows "events (build env self component_config built_config force_rebuild) =
     [Print (reusing_message self img)]"
  using assms(3)
  by (simp add: events_build_resolved [OF assms(1,2)] reuse_or_rebuild_events
      reusing_message_sorted)

text \<open>
  C3. When the dist type resolves and the identifier is computed, \<open>build\<close> takes
  the reuse path (it prints the reuse message and does nothing else) if and only if
  \<open>force_rebuild\<close> is false, the dist type is RELEASE and the existence check on
  the identifier returns true. In every other case it rebuilds: it enters the scratch
  directory, requests the download (RELEASE) or writes the archive (SNAPSHOT), requests
  the docker build when that step returned, and leaves the scratch directory. The events
  of the rebuild are given in full, by the results of the collaborators.
\<close>

theorem reuse_iff_not_forced_and_release_and_exists:
  assumes "dist_type_and_arg env component_config = Inr (dt, argument)"
    and "snd (get_image_name self dt (version_argument dt argument) built_config) = Inr img"
  shows "(events (build env self component_config built_config force_rebuild)
            = [Print (reusing_message self img)])
          = (\<not> force_rebuild \<and> dt = RELEASE \<and> image_exists_locally env img)
     \<and> list_all is_print (events (build env self component_config built_config force_rebuild))
          = (\<not> force_rebuild \<and> dt = RELEASE \<and> image_exists_locally env img)
     \<and> (let resource_dir = path_truediv env (resource_path built_config) (name self);
             tmp_dir = tmp_dir_of env resource_dir;
             archive = path_truediv env tmp_dir (name self @ ''.tar.gz'');
             build_events = [Print (building_message img),
                             ImagesBuild (path_str env resource_dir) img]
         in (\<not> (\<not> force_rebuild \<and> dt = RELEASE \<and> image_exists_locally env img) \<and> dt = RELEASE \<longrightarrow>
               events (build env self component_config built_config force_rebuild)
                 = TmpDirEnter tmp_dir
                   # (case self_url_template self argument of
                        Inl e \<Rightarrow> []
                      | Inr url \<Rightarrow>
                          Print (downloading_message self argument url)
                          # (case path_expanduser env archive of
                               Inl e \<Rightarrow> []
                             | Inr p \<Rightarrow>
                                 WgetDownload url (path_str env p)
                                 # (case wget_download env url (path_str env p) of
                                      Some e \<Rightarrow> []
                                    | None \<Rightarrow> Print [] # build_events)))
                   @ [TmpDirExit tmp_dir])
          \<and> (dt = SNAPSHOT \<longrightarrow>
               events (build env self component_config built_config force_rebuild)
                 = TmpDirEnter tmp_dir
                   # Print (preparing_message self (path_str env (Path env argument)))
                   # TarfileOpen archive
                   # (case tarfile_open env archive of
                        Some e \<Rightarrow> []
                      | None \<Rightarrow>
                          (case path_expanduser env (Path env argument) of
                             Inl e \<Rightarrow> [TarfileExit archive]
                           | Inr p \<Rightarrow>
                               TarfileAdd archive (path_str env p) (path_name env (Path env argument))
                               # TarfileExit archive
                               # (case tarfile_add env archive (path_str env p)
                                         (path_name env (Path env argument)) of
                                    Some e \<Rightarrow> []
                                  | None \<Rightarrow>
                                      (case tarfile_exit env archive of
                                         Some e \<Rightarrow> []
                                       | None \<Rightarrow> build_events))))
                   @ [TmpDirExit tmp_dir]))"
proof (cases "reuse_existing_image env force_rebuild dt img")
  case True
  then have c: "\<not> force_rebuild \<and> dt = RELEASE \<and> image_exists_locally env img"
    by (simp add: reuse_existing_image_def)
  have e: "events (build env self component_config built_config force_rebuild)
        = [Print (reusing_message self img)]"
    using assms True by (rule events_build_reuse)
  from c e show ?thesis by (simp add: Let_def)
next
  case False
  then have c: "\<not> (\<not> force_rebuild \<and> dt = RELEASE \<and> image_exists_locally env img)"
    by (simp add: reuse_existing_image_def)
  note e = events_build_rebuild [OF assms False]
  have not_reuse: "events (build env self component_config built_config force_rebuild)
        \<noteq> [Print (reusing_message self img)]"
    by (simp add: e)
  have not_prints: "\<not> list_all is_print (events (build env self component_config built_config force_rebuild))"
    by (simp add: e)
  have rel: "events (build env self component_config built_config force_rebuild)
      = TmpDirEnter (tmp_dir_of env (get_resource_dir env self (resource_path built_config)))
        # (case self_url_template self argument of
             Inl e \<Rightarrow> []
           | Inr url \<Rightarrow>
               Print (downloading_message self argument url)
               # (case path_expanduser env
                        (path_truediv env
                           (tmp_dir_of env (get_resource_dir env self (resource_path built_config)))
                           (name self @ ''.tar.gz'')) of
                    Inl e \<Rightarrow> []
                  | Inr p \<Rightarrow>
                      WgetDownload url (path_str env p)
                      # (case wget_download env url (path_str env p) of
                           Some e \<Rightarrow> []
                         | None \<Rightarrow>
                             Print []
                             # [Print (building_message img),
                                ImagesBuild (path_str env (get_resource_dir env self (resource_path built_config))) img])))
        @ [TmpDirExit (tmp_dir_of env (get_resource_dir env self (resource_path built_config)))]"
    if "dt = RELEASE"
    using e that by (simp only: release_step_events)
  have snap: "events (build env self component_config built_config force_rebuild)
      = TmpDirEnter (tmp_dir_of env (get_resource_dir env self (resource_path built_config)))
        # (Print (preparing_message self (path_str env (Path env argument)))
     # TarfileOpen (path_truediv env (tmp_dir_of env (get_resource_dir env self (resource_path built_config))) (name self @ ''.tar.gz''))
     # (case tarfile_open env (path_truediv env (tmp_dir_of env (get_resource_dir env self (resource_path built_config))) (name self @ ''.tar.gz'')) of
          Some e \<Rightarrow> []
        | None \<Rightarrow>
            (case path_expanduser env (Path env argument) of
               Inl e \<Rightarrow> [TarfileExit (path_truediv env (tmp_dir_of env (get_resource_dir env self (resource_path built_config))) (name self @ ''.tar.gz''))]
             | Inr p \<Rightarrow>
                 TarfileAdd (path_truediv env (tmp_dir_of env (get_resource_dir env self (resource_path built_config))) (name self @ ''.tar.gz''))
                   (path_str env p) (path_name env (Path env argument))
                 # TarfileExit (path_truediv env (tmp_dir_of env (get_resource_dir env self (resource_path built_config))) (name self @ ''.tar.gz''))
                 # (case tarfile_add env (path_truediv env (tmp_dir_of env (get_resource_dir env self (resource_path built_config))) (name self @ ''.tar.gz''))
                           (path_str env p) (path_name env (Path env argument)) of
                      Some e \<Rightarrow> []
                    | None \<Rightarrow>
                        (case tarfile_exit env (path_truediv env (tmp_dir_of env (get_resource_dir env self (resource_path built_config))) (name self @ ''.tar.gz'')) of
                           Some e \<Rightarrow> []
                         | None \<Rightarrow> [Print (building_message img),
                                ImagesBuild (path_str env (get_resource_dir env self (resource_path built_config))) img])))))
        @ [TmpDirExit (tmp_dir_of env (get_resource_dir env self (resource_path built_config)))]"
    if "dt = SNAPSHOT"
    using e that by (simp only: snapshot_step_events)
  show ?thesis
    unfolding Let_def get_resource_dir_def [symmetric]
    using c not_reuse not_prints rel snap by simp
qed

theorem reuse_iff_not_forced_and_release_and_exists_witness:
  "dist_type_and_arg example_env release_request = Inr (RELEASE, ''3.0'')
   \<and> snd (get_image_name web_builder RELEASE (version_argument RELEASE ''3.0'') scenario_config)
        = Inr ''acme/web:3.0_cache2.0__db1.0_''
   \<and> image_exists_locally example_env ''acme/web:3.0_cache2.0__db1.0_''
   \<and> list_all is_print (events (build example_env web_builder release_request scenario_config False))
   \<and> events (build example_env web_builder release_request scenario_config True)
        = [TmpDirEnter [''resources'', ''web'', ''tmp''],
           Print ''Downloading web release version 3.0 from https://example.org/web-3.0.tar.gz.'',
           WgetDownload ''https://example.org/web-3.0.tar.gz'' ''resources/web/tmp/web.tar.gz'',
           Print [],
           Print ''Building docker image acme/web:3.0_cache2.0__db1.0_.'',
           ImagesBuild ''resources/web'' ''acme/web:3.0_cache2.0__db1.0_'',
           TmpDirExit [''resources'', ''web'', ''tmp'']]"
proof -
  have h: "dist_type_and_arg example_env release_request = Inr (RELEASE, ''3.0'')"
    by (simp add: example_env_def release_request_def)
  have i: "snd (get_image_name web_builder RELEASE (version_argument RELEASE ''3.0'') scenario_config)
        = Inr ''acme/web:3.0_cache2.0__db1.0_''"
    by (simp add: get_image_name_def web_builder_def scenario_config_def component_tag_def
        version_argument_def dependencies_def name_def sort_db_cache dependency_tag_def
        split_def index_last_def template_format_def)
  have x: "image_exists_locally example_env ''acme/web:3.0_cache2.0__db1.0_''"
    by (simp add: example_env_def)
  have a: "list_all is_print (events (build example_env web_builder release_request scenario_config False))"
    using reuse_iff_not_forced_and_release_and_exists [OF h i, of False] x by simp
  have n: "name web_builder = ''web''"
    by (simp add: name_def web_builder_def)
  have u: "self_url_template web_builder ''3.0'' = Inr ''https://example.org/web-3.0.tar.gz''"
    by (simp add: web_builder_def)
  have r: "resource_path scenario_config = [''resources'']"
    by (simp add: scenario_config_def)
  have b: "events (build example_env web_builder release_request scenario_config True)
        = [TmpDirEnter [''resources'', ''web'', ''tmp''],
           Print ''Downloading web release version 3.0 from https://example.org/web-3.0.tar.gz.'',
           WgetDownload ''https://example.org/web-3.0.tar.gz'' ''resources/web/tmp/web.tar.gz'',
           Print [],
           Print ''Building docker image acme/web:3.0_cache2.0__db1.0_.'',
           ImagesBuild ''resources/web'' ''acme/web:3.0_cache2.0__db1.0_'',
           TmpDirExit [''resources'', ''web'', ''tmp'']]"
    using reuse_iff_not_forced_and_release_and_exists [OF h i, of True]
    by (simp add: Let_def n u r example_env_def downloading_message_def building_message_def)
  from h i x a b show ?thesis by (intro conjI)
qed






text \<open>
  C6, as amended. The version of the returned \<open>ComponentConfig\<close> is the requested
  version string for RELEASE, and for SNAPSHOT it is whatever the callable given to the
  constructor returns on the computed identifier.
\<close>

theorem returned_version:
  assumes "outcome (build env self component_config built_config force_rebuild) = Inr result"
  shows "\<exists>argument.
           dist_type_and_arg env component_config = Inr (dist_type result, argument)
         \<and> snd (get_image_name self (dist_type result)
                  (version_argument (dist_type result) argument) built_config)
             = Inr (image_name result)
         \<and> (dist_type result = RELEASE \<longrightarrow> version result = argument)
         \<and> (dist_type result = SNAPSHOT \<longrightarrow>
              self_version_from_image_name self (image_name result) = Inr (version result))"
proof (cases "dist_type_and_arg env component_config")
  case (Inl e)
  then show ?thesis using assms by (simp add: build_def outcome_def)
next
  case (Inr p)
  then obtain dt argument where h: "dist_type_and_arg env component_config = Inr (dt, argument)"
    by (cases p) auto
  have "dist_type result = dt
      \<and> snd (get_image_name self dt (version_argument dt argument) built_config)
          = Inr (image_name result)
      \<and> (dt = RELEASE \<longrightarrow> version result = argument)
      \<and> (dt = SNAPSHOT \<longrightarrow>
            self_version_from_image_name self (image_name result) = Inr (version result))"
    using assms
    by (cases dt)
       (auto simp: build_resolved [OF h] outcome_def Let_def resolve_version_def
          split: sum.splits prod.splits option.splits)
  with h show ?thesis by auto
qed

lemma snapshot_identifier_of_scenario:
  "snd (get_image_name web_builder SNAPSHOT (version_argument SNAPSHOT ''/home/dev/web'') scenario_config)
     = Inr ''acme/web:snapshot_20190101_1200_cache2.0__db1.0_''"
  by (simp add: get_image_name_def web_builder_def scenario_config_def component_tag_def
      version_argument_def dependencies_def name_def sort_db_cache dependency_tag_def
      split_def index_last_def template_format_def)

lemma version_from_tag_prefix_of_scenario:
  "version_from_tag_prefix ''acme/web:snapshot_20190101_1200_cache2.0__db1.0_''
     = Inr ''snapshot_20190101''"
  by (simp add: version_from_tag_prefix_def split_def index_last_def)

lemma example_env_snapshot_never_fails:
  "snd (reuse_or_rebuild example_env self SNAPSHOT argument img built_config force_rebuild) = None"
proof -
  have "snd (archive_step example_env self SNAPSHOT argument tmp_dir) = None" for tmp_dir
    by (simp add: archive_step_def prepare_tarfile_snapshot_def example_env_def Let_def)
  moreover have "images_build example_env d img = None" for d
    by (simp add: example_env_def)
  ultimately show ?thesis
    by (simp add: reuse_or_rebuild_result rebuild_body_result)
qed

lemma snapshot_build_of_scenario:
  "outcome (build example_env web_builder snapshot_request scenario_config False)
     = Inr \<lparr>dist_type = SNAPSHOT, version = ''snapshot_20190101'',
            image_name = ''acme/web:snapshot_20190101_1200_cache2.0__db1.0_''\<rparr>"
proof -
  let ?self' = "web_builder\<lparr>self_dependencies := sort (dependencies web_builder)\<rparr>"
  let ?img = "''acme/web:snapshot_20190101_1200_cache2.0__db1.0_''"
  have h: "dist_type_and_arg example_env snapshot_request = Inr (SNAPSHOT, ''/home/dev/web'')"
    by (simp add: example_env_def snapshot_request_def)
  have v: "resolve_version ?self' SNAPSHOT ''/home/dev/web'' ?img = Inr ''snapshot_20190101''"
    by (simp add: resolve_version_def web_builder_def version_from_tag_prefix_of_scenario)
  obtain tr where rr: "reuse_or_rebuild example_env ?self' SNAPSHOT ''/home/dev/web'' ?img
       scenario_config False = (tr, None)"
    using example_env_snapshot_never_fails [of ?self' "''/home/dev/web''" ?img scenario_config False]
    by (cases "reuse_or_rebuild example_env ?self' SNAPSHOT ''/home/dev/web'' ?img scenario_config False")
       simp
  show ?thesis
    unfolding build_resolved [OF h] outcome_def Let_def snapshot_identifier_of_scenario
    by (simp add: rr v)
qed

text \<open>
  C6, as stated: a SNAPSHOT build that succeeds and whose returned version is not the
  component tag. The builder extracts the first two pieces of the tag; the timestamp of
  the configuration contains an underscore.
\<close>

theorem snapshot_version_is_not_component_tag:
  "outcome (build example_env web_builder snapshot_request scenario_config False)
     = Inr \<lparr>dist_type = SNAPSHOT, version = ''snapshot_20190101'',
            image_name = ''acme/web:snapshot_20190101_1200_cache2.0__db1.0_''\<rparr>
   \<and> component_tag SNAPSHOT (version_argument SNAPSHOT ''/home/dev/web'') scenario_config
     = Inr ''snapshot_20190101_1200''
   \<and> ''snapshot_20190101'' \<noteq> ''snapshot_20190101_1200''"
proof -
  have c: "component_tag SNAPSHOT (version_argument SNAPSHOT ''/home/dev/web'') scenario_config
     = Inr ''snapshot_20190101_1200''"
    by (simp add: component_tag_def scenario_config_def)
  have d: "''snapshot_20190101'' \<noteq> ''snapshot_20190101_1200''"
    by simp
  from snapshot_build_of_scenario c d show ?thesis by (intro conjI)
qed

theorem returned_version_witness:
  "outcome (build example_env web_builder snapshot_request scenario_config False)
     = Inr \<lparr>dist_type = SNAPSHOT, version = ''snapshot_20190101'',
            image_name = ''acme/web:snapshot_20190101_1200_cache2.0__db1.0_''\<rparr>
   \<and> self_version_from_image_name web_builder ''acme/web:snapshot_20190101_1200_cache2.0__db1.0_''
     = Inr ''snapshot_20190101''"
proof -
  have o: "outcome (build example_env web_builder snapshot_request scenario_config False)
     = Inr \<lparr>dist_type = SNAPSHOT, version = ''snapshot_20190101'',
            image_name = ''acme/web:snapshot_20190101_1200_cache2.0__db1.0_''\<rparr>"
    by (rule snapshot_build_of_scenario)
  have "self_version_from_image_name web_builder ''acme/web:snapshot_20190101_1200_cache2.0__db1.0_''
     = Inr ''snapshot_20190101''"
    using returned_version [OF o] by clarsimp
  with o show ?thesis by (intro conjI)
qed

text \<open>
  No extraction can give back the component tag of every snapshot identifier: two
  computations with different component tags yield the same identifier.
\<close>

lemma snapshot_identifiers_collide:
  "snd (get_image_name (web_builder\<lparr>self_dependencies := []\<rparr>) SNAPSHOT None
          (scenario_config\<lparr>timestamp := ''1_db1.0''\<rparr>))
     = Inr ''acme/web:snapshot_1_db1.0_''
   \<and> snd (get_image_name (web_builder\<lparr>self_dependencies := [''db'']\<rparr>) SNAPSHOT None
          (scenario_config\<lparr>timestamp := ''1''\<rparr>))
     = Inr ''acme/web:snapshot_1_db1.0_''
   \<and> component_tag SNAPSHOT None (scenario_config\<lparr>timestamp := ''1_db1.0''\<rparr>) = Inr ''snapshot_1_db1.0''
   \<and> component_tag SNAPSHOT None (scenario_config\<lparr>timestamp := ''1''\<rparr>) = Inr ''snapshot_1''"
  by (simp add: get_image_name_def web_builder_def scenario_config_def component_tag_def
      dependencies_def name_def dependency_tag_def split_def index_last_def template_format_def)

lemma no_extraction_recovers_component_tag:
  "\<not> (\<forall>self built_config img.
         snd (get_image_name self SNAPSHOT None built_config) = Inr img \<longrightarrow>
         f img = component_tag SNAPSHOT None built_config)"
proof
  assume a: "\<forall>self built_config img.
         snd (get_image_name self SNAPSHOT None built_config) = Inr img \<longrightarrow>
         f img = component_tag SNAPSHOT None built_config"
  note c = snapshot_identifiers_collide
  have "f ''acme/web:snapshot_1_db1.0_'' = Inr ''snapshot_1_db1.0''"
    using a [rule_format, OF c [THEN conjunct1]] c [THEN conjunct2, THEN conjunct2, THEN conjunct1]
    by (rule trans)
  moreover have "f ''acme/web:snapshot_1_db1.0_'' = Inr ''snapshot_1''"
    using a [rule_format, OF c [THEN conjunct2, THEN conjunct1]]
      c [THEN conjunct2, THEN conjunct2, THEN conjunct2]
    by (rule trans)
  ultimately have "(Inr ''snapshot_1_db1.0'' :: error + string) = Inr ''snapshot_1''"
    by (rule trans [OF sym])
  then show False by simp
qed

section \<open>Properties of \<open>CreateCacheStage\<close>\<close>

text \<open>The precondition cases that the tests of the source check.\<close>

lemma CreateCacheStage_precondition_parent_missing:
  "fs parent_dir = None \<Longrightarrow> \<not> check_precondition (CreateCacheStage parent_dir) fs"
  by (simp add: CreateCacheStage_def)

lemma CreateCacheStage_precondition_parent_is_file:
  "fs parent_dir = Some File \<Longrightarrow> \<not> check_precondition (CreateCacheStage parent_dir) fs"
  by (simp add: CreateCacheStage_def)

lemma CreateCacheStage_execute_cases:
  "execute (CreateCacheStage parent_dir) fs =
     (case fs (cache_dir parent_dir) of
        None \<Rightarrow> (fs(cache_dir parent_dir \<mapsto> Directory), None)
      | Some Directory \<Rightarrow> (fs, None)
      | Some File \<Rightarrow> (fs, Some (ExecutionError ''cache is not a directory'')))"
  by (simp add: CreateCacheStage_def)

text \<open>
  C8. For a parent directory that exists and is a directory, executing
  \<open>CreateCacheStage\<close> a second time changes nothing and ends as the first time;
  executing it keeps everything that was in the file system; it creates the cache
  directory when nothing has that name and leaves an existing cache directory, with its
  contents, as it is.
\<close>

theorem CreateCacheStage_execute_idempotent:
  assumes "check_precondition (CreateCacheStage parent_dir) fs"
  shows "execute (CreateCacheStage parent_dir) (fst (execute (CreateCacheStage parent_dir) fs))
           = (fst (execute (CreateCacheStage parent_dir) fs),
              snd (execute (CreateCacheStage parent_dir) fs))
     \<and> (\<forall>p. fs p \<noteq> None \<longrightarrow> fst (execute (CreateCacheStage parent_dir) fs) p = fs p)
     \<and> (fs (cache_dir parent_dir) = None \<longrightarrow>
          execute (CreateCacheStage parent_dir) fs = (fs(cache_dir parent_dir \<mapsto> Directory), None))
     \<and> (fs (cache_dir parent_dir) = Some Directory \<longrightarrow>
          execute (CreateCacheStage parent_dir) fs = (fs, None))
     \<and> (fs (cache_dir parent_dir) \<noteq> Some File \<longrightarrow>
          snd (execute (CreateCacheStage parent_dir) fs) = None
        \<and> fst (execute (CreateCacheStage parent_dir) fs) (cache_dir parent_dir) = Some Directory)"
proof (cases "fs (cache_dir parent_dir)")
  case None
  then show ?thesis by (simp add: CreateCacheStage_execute_cases)
next
  case (Some n)
  then show ?thesis by (cases n) (simp_all add: CreateCacheStage_execute_cases)
qed

theorem CreateCacheStage_execute_idempotent_witness:
  "check_precondition (CreateCacheStage [''work'']) example_fs
   \<and> execute (CreateCacheStage [''work'']) example_fs = (example_fs, None)
   \<and> example_fs [''work'', ''cache'', ''file''] = Some File"
proof -
  have h: "check_precondition (CreateCacheStage [''work'']) example_fs"
    by (simp add: CreateCacheStage_def example_fs_def)
  have d: "example_fs (cache_dir [''work'']) = Some Directory"
    by (simp add: example_fs_def cache_dir_def path_div_def)
  have f: "example_fs [''work'', ''cache'', ''file''] = Some File"
    by (simp add: example_fs_def)
  have "execute (CreateCacheStage [''work'']) example_fs = (example_fs, None)"
    using CreateCacheStage_execute_idempotent [OF h] d by blast
  with h f show ?thesis by (intro conjI)
qed

end
